theory Spec2Isabelle
  imports Main "HOL-Library.Sublist"
begin

section \<open>The Bedrock RAG client of \<^verbatim>\<open>rag_bedrock.py\<close>\<close>

text \<open>
  The script has two procedures, \<^verbatim>\<open>check_model_access\<close> and \<^verbatim>\<open>run_rag_query\<close>.
  Both read three module-level constants and talk to the cloud provider through
  \<^verbatim>\<open>boto3\<close>. The model below makes the constants a record that is passed in, makes the
  provider an oracle that is passed in, and returns, besides the Python result, the
  list of provider calls that were attempted. Writing to standard output is not part
  of the model.

  Python strings are modelled as \<^typ>\<open>string\<close>. Exceptions are the instances of
  \<^verbatim>\<open>Exception\<close>, the ones an \<^verbatim>\<open>except Exception\<close> clause catches; \<^verbatim>\<open>KeyboardInterrupt\<close>
  and \<^verbatim>\<open>SystemExit\<close> are outside the model.
\<close>

subsection \<open>Python values and exceptions\<close>

text \<open>
  The values the query path returns: strings, lists and dictionaries. A dictionary is
  an association list in insertion order, as Python keeps it.
\<close>

datatype pyval =
    PStr string
  | PList "pyval list"
  | PDict "(string \<times> pyval) list"

text \<open>
  \<^verbatim>\<open>KeyError k\<close> is what \<^verbatim>\<open>d[k]\<close> raises for a missing key, \<^verbatim>\<open>IndexError\<close> what
  \<^verbatim>\<open>xs[-1]\<close> raises on an empty list, and \<^verbatim>\<open>ProviderError m\<close> stands for any exception
  that a \<^verbatim>\<open>boto3\<close> call raises, with \<^verbatim>\<open>str(e) = m\<close>.
\<close>

datatype py_exception =
    KeyError string
  | IndexError
  | ProviderError string

text \<open>A string between single quotes, as in \<^verbatim>\<open>f"'{s}'"\<close>.\<close>

definition quoted :: "string \<Rightarrow> string" where
  "quoted s = [CHR 0x27] @ s @ [CHR 0x27]"

text \<open>
  \<^verbatim>\<open>str(e)\<close>. For a \<^verbatim>\<open>KeyError\<close> it is the \<^verbatim>\<open>repr\<close> of the key, which for the
  keys of this program (letters only) is the key between single quotes.
\<close>

fun py_str :: "py_exception \<Rightarrow> string" where
  "py_str (KeyError k) = quoted k"
| "py_str IndexError = ''list index out of range''"
| "py_str (ProviderError m) = m"

text \<open>The substring test \<^verbatim>\<open>needle in hay\<close> on strings.\<close>

fun str_in :: "string \<Rightarrow> string \<Rightarrow> bool" where
  "str_in needle [] = (needle = [])"
| "str_in needle (c # cs) = (prefix needle (c # cs) \<or> str_in needle cs)"

text \<open>
  \<^verbatim>\<open>s.split(sep)\<close> for a separator of one character: a scan that closes the current
  piece at every separator, so the result is never empty.
\<close>

fun split_from :: "char \<Rightarrow> string \<Rightarrow> string \<Rightarrow> string list" where
  "split_from sep cur [] = [cur]"
| "split_from sep cur (c # cs) =
     (if c = sep then cur # split_from sep [] cs else split_from sep (cur @ [c]) cs)"

definition py_split :: "string \<Rightarrow> char \<Rightarrow> string list" where
  "py_split s sep = split_from sep [] s"

text \<open>\<^verbatim>\<open>xs[-1]\<close>.\<close>

definition index_last :: "'a list \<Rightarrow> py_exception + 'a" where
  "index_last xs = (case xs of [] \<Rightarrow> Inl IndexError | _ # _ \<Rightarrow> Inr (last xs))"

subsection \<open>Configuration\<close>

text \<open>The three module-level constants.\<close>

record config =
  KNOWLEDGE_BASE_ID :: string
  REGION_NAME :: string
  MODEL_ID :: string

text \<open>Their values in the file as it is.\<close>

definition shipped_config :: config where
  "shipped_config =
     \<lparr> KNOWLEDGE_BASE_ID = ''######'',
       REGION_NAME = ''us-west-2'',
       MODEL_ID = ''anthropic.claude-3-haiku-20240307-v1:0'' \<rparr>"

subsection \<open>The provider boundary\<close>

text \<open>
  The request of \<^verbatim>\<open>retrieve_and_generate\<close>, one field per leaf of the nested keyword
  arguments.
\<close>

record rag_request =
  input_text :: string
  config_type :: string
  knowledgeBaseId :: string
  modelArn :: string
  numberOfResults :: int

text \<open>
  The response of \<^verbatim>\<open>retrieve_and_generate\<close>, with the members the code reads. Every
  dictionary key the code looks up may be absent, which is \<open>None\<close>. A member that is
  present has the type the provider's interface gives it: a string, a list or a
  dictionary. A response with a member of another type is outside the model.
\<close>

record output_member =
  output_text :: "string option"

record content_member =
  content_text :: "string option"

record retrieved_reference =
  uri :: "string option"
  content :: "content_member option"

record citation =
  retrievedReferences :: "retrieved_reference list option"

record rag_response =
  "output" :: "output_member option"
  citations :: "citation list option"

text \<open>The response of \<^verbatim>\<open>list_foundation_models\<close>.\<close>

record model_summary =
  modelId :: "string option"

record list_models_response =
  modelSummaries :: "model_summary list option"

text \<open>A client object remembers the service and the region it was made for.\<close>

record client =
  service_name :: string
  region_name :: string

text \<open>
  The provider and \<^verbatim>\<open>boto3\<close> together: whether making a client raises, and what each
  of the two operations does, which is to raise or to return a response.
\<close>

record provider =
  client_raises :: "string \<Rightarrow> string \<Rightarrow> py_exception option"
  retrieve_and_generate :: "client \<Rightarrow> rag_request \<Rightarrow> py_exception + rag_response"
  list_foundation_models :: "client \<Rightarrow> py_exception + list_models_response"

text \<open>
  What was attempted at the provider boundary, in order: making a client for a service in
  a region (whether or not that raised), and the two operations.
\<close>

datatype event =
    CreateClient string string
  | RetrieveAndGenerate client rag_request
  | ListFoundationModels client

subsection \<open>The access checker\<close>

text \<open>
  The comprehension \<^verbatim>\<open>[model['modelId'] for model in response['modelSummaries']]\<close>:
  it raises at the first summary without the key.
\<close>

fun model_ids :: "model_summary list \<Rightarrow> py_exception + string list" where
  "model_ids [] = Inr []"
| "model_ids (model # rest) =
     (case modelId model of
        None \<Rightarrow> Inl (KeyError ''modelId'')
      | Some i \<Rightarrow> (case model_ids rest of Inl e \<Rightarrow> Inl e | Inr ids \<Rightarrow> Inr (i # ids)))"

text \<open>The body of the \<^verbatim>\<open>try\<close> block of \<^verbatim>\<open>check_model_access\<close>.\<close>

definition check_model_access_try ::
  "config \<Rightarrow> provider \<Rightarrow> event list \<times> (py_exception + bool)" where
  "check_model_access_try cfg p =
     (let made = CreateClient ''bedrock'' (REGION_NAME cfg) in
      case client_raises p ''bedrock'' (REGION_NAME cfg) of
        Some e \<Rightarrow> ([made], Inl e)
      | None \<Rightarrow>
          (let cl = \<lparr> service_name = ''bedrock'', region_name = REGION_NAME cfg \<rparr>;
               calls = [made, ListFoundationModels cl]
           in case list_foundation_models p cl of
                Inl e \<Rightarrow> (calls, Inl e)
              | Inr response \<Rightarrow>
                  (case modelSummaries response of
                     None \<Rightarrow> (calls, Inl (KeyError ''modelSummaries''))
                   | Some summaries \<Rightarrow>
                       (case model_ids summaries of
                          Inl e \<Rightarrow> (calls, Inl e)
                        | Inr available_models \<Rightarrow>
                            (if MODEL_ID cfg \<in> set available_models
                             then (calls, Inr True)
                             else (calls, Inr False))))))"

text \<open>
  \<^verbatim>\<open>check_model_access\<close>: the \<^verbatim>\<open>try\<close> block under its \<^verbatim>\<open>except Exception\<close> clause,
  which returns \<^verbatim>\<open>False\<close>. The result is \<open>Inl e\<close> when the call raises \<open>e\<close> to its
  caller and \<open>Inr b\<close> when it returns \<open>b\<close>.
\<close>

definition check_model_access ::
  "config \<Rightarrow> provider \<Rightarrow> event list \<times> (py_exception + bool)" where
  "check_model_access cfg p =
     (case check_model_access_try cfg p of
        (calls, Inl e) \<Rightarrow> (calls, Inr False)
      | (calls, Inr b) \<Rightarrow> (calls, Inr b))"

subsection \<open>The query runner\<close>

text \<open>
  The inner loop over \<^verbatim>\<open>citation['retrievedReferences']\<close>, appending to the list
  \<^verbatim>\<open>citations\<close>, which is the second argument.
\<close>

fun references_loop ::
  "retrieved_reference list \<Rightarrow> pyval list \<Rightarrow> py_exception + pyval list" where
  "references_loop [] acc = Inr acc"
| "references_loop (ref # rest) acc =
     (let u = (case uri ref of None \<Rightarrow> ''N/A'' | Some v \<Rightarrow> v) in
      case content ref of
        None \<Rightarrow> Inl (KeyError ''content'')
      | Some c \<Rightarrow>
          (case content_text c of
             None \<Rightarrow> Inl (KeyError ''text'')
           | Some snippet \<Rightarrow>
               references_loop rest
                 (acc @ [PDict [(''source_uri'', PStr u), (''snippet'', PStr snippet)]])))"

text \<open>The outer loop over \<^verbatim>\<open>response['citations']\<close>.\<close>

fun citations_loop ::
  "citation list \<Rightarrow> pyval list \<Rightarrow> py_exception + pyval list" where
  "citations_loop [] acc = Inr acc"
| "citations_loop (cit # rest) acc =
     (case retrievedReferences cit of
        None \<Rightarrow> citations_loop rest acc
      | Some refs \<Rightarrow>
          (case references_loop refs acc of
             Inl e \<Rightarrow> Inl e
           | Inr acc' \<Rightarrow> citations_loop rest acc'))"

text \<open>What the \<^verbatim>\<open>try\<close> block does with the response, up to its \<^verbatim>\<open>return\<close>.\<close>

definition process_response :: "config \<Rightarrow> rag_response \<Rightarrow> py_exception + pyval" where
  "process_response cfg response =
     (case output response of
        None \<Rightarrow> Inl (KeyError ''output'')
      | Some out \<Rightarrow>
          (case output_text out of
             None \<Rightarrow> Inl (KeyError ''text'')
           | Some generated_text \<Rightarrow>
               (case (case citations response of
                        None \<Rightarrow> Inr []
                      | Some cits \<Rightarrow> citations_loop cits []) of
                  Inl e \<Rightarrow> Inl e
                | Inr sources \<Rightarrow>
                    (case index_last (py_split (MODEL_ID cfg) (CHR ''/'')) of
                       Inl e \<Rightarrow> Inl e
                     | Inr model_used \<Rightarrow>
                         Inr (PDict [(''answer'', PStr generated_text),
                                     (''sources'', PList sources),
                                     (''model_used'', PStr model_used)])))))"

text \<open>The request that \<^verbatim>\<open>run_rag_query\<close> builds.\<close>

definition build_request :: "config \<Rightarrow> string \<Rightarrow> rag_request" where
  "build_request cfg query =
     \<lparr> input_text = query,
       config_type = ''KNOWLEDGE_BASE'',
       knowledgeBaseId = KNOWLEDGE_BASE_ID cfg,
       modelArn = ''arn:aws:bedrock:'' @ REGION_NAME cfg @ ''::foundation-model/'' @ MODEL_ID cfg,
       numberOfResults = 3 \<rparr>"

text \<open>The body of the \<^verbatim>\<open>try\<close> block of \<^verbatim>\<open>run_rag_query\<close>.\<close>

definition run_rag_query_try ::
  "config \<Rightarrow> provider \<Rightarrow> string \<Rightarrow> event list \<times> (py_exception + pyval)" where
  "run_rag_query_try cfg p query =
     (let made = CreateClient ''bedrock-agent-runtime'' (REGION_NAME cfg) in
      case client_raises p ''bedrock-agent-runtime'' (REGION_NAME cfg) of
        Some e \<Rightarrow> ([made], Inl e)
      | None \<Rightarrow>
          (let cl = \<lparr> service_name = ''bedrock-agent-runtime'', region_name = REGION_NAME cfg \<rparr>;
               request = build_request cfg query;
               calls = [made, RetrieveAndGenerate cl request]
           in case retrieve_and_generate p cl request of
                Inl e \<Rightarrow> (calls, Inl e)
              | Inr response \<Rightarrow> (calls, process_response cfg response)))"

text \<open>The \<^verbatim>\<open>except Exception as e\<close> clause of \<^verbatim>\<open>run_rag_query\<close>.\<close>

definition run_rag_query_except :: "config \<Rightarrow> py_exception \<Rightarrow> pyval" where
  "run_rag_query_except cfg e =
     (let error_msg = py_str e in
      if str_in ''ValidationException'' error_msg \<and> str_in ''access to the model'' error_msg
      then PDict [(''error'', PStr (
             ''Model Access Error: '' @ error_msg
             @ ''\<newline>\<newline>Troubleshooting:\<newline>1. Check if the model '' @ quoted (MODEL_ID cfg)
             @ '' is available in region '' @ quoted (REGION_NAME cfg)
             @ ''\<newline>2. Verify you have access to this model in your AWS account''
             @ ''\<newline>3. Try using a different model like ''
             @ quoted ''anthropic.claude-3-haiku-20240307-v1:0''
             @ '' or '' @ quoted ''anthropic.claude-3-sonnet-20240229-v1:0''))]
      else if str_in ''AccessDeniedException'' error_msg
      then PDict [(''error'', PStr (
             ''Access Denied: '' @ error_msg
             @ ''\<newline>\<newline>Troubleshooting:\<newline>1. Check your AWS credentials''
             @ ''\<newline>2. Verify you have the necessary IAM permissions for Bedrock''
             @ ''\<newline>3. Ensure your Knowledge Base ID is correct''))]
      else PDict [(''error'', PStr error_msg)])"

text \<open>
  \<^verbatim>\<open>run_rag_query\<close>: the two configuration checks, then the \<^verbatim>\<open>try\<close> block under its
  \<^verbatim>\<open>except\<close> clause. The result is \<open>Inl e\<close> when the call raises \<open>e\<close> to its caller and
  \<open>Inr v\<close> when it returns \<open>v\<close>.
\<close>

definition run_rag_query ::
  "config \<Rightarrow> provider \<Rightarrow> string \<Rightarrow> event list \<times> (py_exception + pyval)" where
  "run_rag_query cfg p query =
     (if KNOWLEDGE_BASE_ID cfg = ''YOUR_KNOWLEDGE_BASE_ID_HERE''
      then ([], Inr (PDict [(''error'',
              PStr ''Configuration Missing: Please set KNOWLEDGE_BASE_ID.'')]))
      else if REGION_NAME cfg = ''YOUR_KB_REGION_HERE''
      then ([], Inr (PDict [(''error'',
              PStr (''Configuration Missing: Please set REGION_NAME to your Knowledge Base region (e.g., ''
                    @ quoted ''us-east-1'' @ '').''))]))
      else (case run_rag_query_try cfg p query of
              (calls, Inl e) \<Rightarrow> (calls, Inr (run_rag_query_except cfg e))
            | (calls, Inr v) \<Rightarrow> (calls, Inr v)))"

subsection \<open>Terms for stating the properties\<close>

text \<open>The two configuration checks at the head of \<^verbatim>\<open>run_rag_query\<close> both pass.\<close>

definition passes_validation :: "config \<Rightarrow> bool" where
  "passes_validation cfg \<longleftrightarrow>
     KNOWLEDGE_BASE_ID cfg \<noteq> ''YOUR_KNOWLEDGE_BASE_ID_HERE''
     \<and> REGION_NAME cfg \<noteq> ''YOUR_KB_REGION_HERE''"

text \<open>The client objects the two procedures make.\<close>

definition agent_client :: "config \<Rightarrow> client" where
  "agent_client cfg = \<lparr> service_name = ''bedrock-agent-runtime'', region_name = REGION_NAME cfg \<rparr>"

definition model_client :: "config \<Rightarrow> client" where
  "model_client cfg = \<lparr> service_name = ''bedrock'', region_name = REGION_NAME cfg \<rparr>"

text \<open>
  The reference entries of a response in the order the provider sent them: those of the
  first citation, then those of the second, and so on. A response without citations and a
  citation without references contribute none.
\<close>

definition references_of :: "citation \<Rightarrow> retrieved_reference list" where
  "references_of cit = (case retrievedReferences cit of None \<Rightarrow> [] | Some refs \<Rightarrow> refs)"

definition response_refs :: "rag_response \<Rightarrow> retrieved_reference list" where
  "response_refs response =
     concat (map references_of (case citations response of None \<Rightarrow> [] | Some cits \<Rightarrow> cits))"

text \<open>The member \<^verbatim>\<open>content.text\<close> of a reference, when both keys are there.\<close>

definition snippet_of :: "retrieved_reference \<Rightarrow> string option" where
  "snippet_of ref = (case content ref of None \<Rightarrow> None | Some c \<Rightarrow> content_text c)"

text \<open>The dictionary \<open>d\<close> is the normalized citation of the reference \<open>ref\<close>.\<close>

definition normalized :: "retrieved_reference \<Rightarrow> pyval \<Rightarrow> bool" where
  "normalized ref d =
     (case snippet_of ref of
        None \<Rightarrow> False
      | Some snippet \<Rightarrow>
          d = PDict [(''source_uri'', PStr (case uri ref of None \<Rightarrow> ''N/A'' | Some v \<Rightarrow> v)),
                     (''snippet'', PStr snippet)])"

text \<open>The retrieve-and-generate requests among the calls that were attempted.\<close>

fun requests_of :: "event list \<Rightarrow> rag_request list" where
  "requests_of [] = []"
| "requests_of (RetrieveAndGenerate cl request # rest) = request # requests_of rest"
| "requests_of (CreateClient s r # rest) = requests_of rest"
| "requests_of (ListFoundationModels cl # rest) = requests_of rest"

subsection \<open>Sample inputs\<close>

definition sample_config :: config where
  "sample_config =
     \<lparr> KNOWLEDGE_BASE_ID = ''A1B2C3D4E5'',
       REGION_NAME = ''us-east-1'',
       MODEL_ID = ''anthropic.claude-3-haiku-20240307-v1:0'' \<rparr>"

definition path_config :: config where
  "path_config = sample_config \<lparr> MODEL_ID := ''vendor/family/model-1'' \<rparr>"

text \<open>Three references in three citations, one citation without references, one reference without a URI.\<close>

definition sample_response :: rag_response where
  "sample_response =
     \<lparr> output = Some \<lparr> output_text = Some ''An answer.'' \<rparr>,
       citations = Some
         [\<lparr> retrievedReferences = Some
              [\<lparr> uri = Some ''s3://docs/a.txt'', content = Some \<lparr> content_text = Some ''alpha'' \<rparr> \<rparr>,
               \<lparr> uri = None, content = Some \<lparr> content_text = Some ''beta'' \<rparr> \<rparr>] \<rparr>,
          \<lparr> retrievedReferences = None \<rparr>,
          \<lparr> retrievedReferences = Some
              [\<lparr> uri = Some ''s3://docs/c.txt'', content = Some \<lparr> content_text = Some ''gamma'' \<rparr> \<rparr>] \<rparr>] \<rparr>"

definition response_without_citations :: rag_response where
  "response_without_citations =
     \<lparr> output = Some \<lparr> output_text = Some ''An answer.'' \<rparr>, citations = None \<rparr>"

definition response_without_output :: rag_response where
  "response_without_output = \<lparr> output = None, citations = None \<rparr>"

definition response_without_text :: rag_response where
  "response_without_text = \<lparr> output = Some \<lparr> output_text = None \<rparr>, citations = None \<rparr>"

definition response_without_snippet :: rag_response where
  "response_without_snippet =
     \<lparr> output = Some \<lparr> output_text = Some ''An answer.'' \<rparr>,
       citations = Some
         [\<lparr> retrievedReferences = Some [\<lparr> uri = Some ''s3://docs/a.txt'', content = None \<rparr>] \<rparr>] \<rparr>"

text \<open>
  The first reference has its snippet, the second has \<^verbatim>\<open>content\<close> without \<^verbatim>\<open>text\<close>, the
  third has no \<^verbatim>\<open>content\<close>.
\<close>

definition response_without_snippet_text :: rag_response where
  "response_without_snippet_text =
     \<lparr> output = Some \<lparr> output_text = Some ''An answer.'' \<rparr>,
       citations = Some
         [\<lparr> retrievedReferences = Some
              [\<lparr> uri = Some ''s3://docs/a.txt'', content = Some \<lparr> content_text = Some ''alpha'' \<rparr> \<rparr>] \<rparr>,
          \<lparr> retrievedReferences = Some
              [\<lparr> uri = None, content = Some \<lparr> content_text = None \<rparr> \<rparr>,
               \<lparr> uri = None, content = None \<rparr>] \<rparr>] \<rparr>"

text \<open>A provider that answers every query with the given response.\<close>

definition replying_provider :: "rag_response \<Rightarrow> provider" where
  "replying_provider response =
     \<lparr> client_raises = (\<lambda>service region. None),
       retrieve_and_generate = (\<lambda>cl request. Inr response),
       list_foundation_models = (\<lambda>cl. Inr \<lparr> modelSummaries = Some [] \<rparr>) \<rparr>"

text \<open>A provider whose operations raise an exception with the given message.\<close>

definition raising_provider :: "string \<Rightarrow> provider" where
  "raising_provider msg =
     \<lparr> client_raises = (\<lambda>service region. None),
       retrieve_and_generate = (\<lambda>cl request. Inl (ProviderError msg)),
       list_foundation_models = (\<lambda>cl. Inl (ProviderError msg)) \<rparr>"

text \<open>A provider that lists the given model identifiers.\<close>

definition listing_provider :: "string list \<Rightarrow> provider" where
  "listing_provider ids =
     \<lparr> client_raises = (\<lambda>service region. None),
       retrieve_and_generate = (\<lambda>cl request. Inl (ProviderError ''unused'')),
       list_foundation_models =
         (\<lambda>cl. Inr \<lparr> modelSummaries = Some (map (\<lambda>i. \<lparr> modelId = Some i \<rparr>) ids) \<rparr>) \<rparr>"

text \<open>No client can be made.\<close>

definition offline_provider :: provider where
  "offline_provider =
     \<lparr> client_raises = (\<lambda>service region. Some (ProviderError ''Could not connect'')),
       retrieve_and_generate = (\<lambda>cl request. Inl (ProviderError ''unused'')),
       list_foundation_models = (\<lambda>cl. Inl (ProviderError ''unused'')) \<rparr>"

section \<open>Properties\<close>

subsection \<open>Strings\<close>

text \<open>\<^const>\<open>str_in\<close> holds exactly when the needle occurs as a contiguous piece.\<close>

lemma str_in_sublist: "str_in n h = sublist n h"
  by (induction h) (auto simp: sublist_Cons_right)

lemma str_in_iff: "str_in n h \<longleftrightarrow> (\<exists>p s. h = p @ n @ s)"
  by (simp add: str_in_sublist sublist_def)

lemma str_in_middle: "str_in n (p @ n @ s)"
  unfolding str_in_iff by blast

lemma str_in_append_left: "str_in n h \<Longrightarrow> str_in n (p @ h)"
  unfolding str_in_iff by (metis append.assoc)

lemma str_in_append_right: "str_in n h \<Longrightarrow> str_in n (h @ s)"
  unfolding str_in_iff by (metis append.assoc)

text \<open>
  The last piece of a split is what follows the last separator, or the whole string
  when there is no separator.
\<close>

lemma split_from_nonempty: "split_from sep cur s \<noteq> []"
  by (induction s arbitrary: cur) auto

lemma last_split_from_absent:
  "sep \<notin> set s \<Longrightarrow> last (split_from sep cur s) = cur @ s"
  by (induction s arbitrary: cur) auto

lemma last_split_from_present:
  "sep \<in> set s \<Longrightarrow>
   \<exists>pre. s = pre @ sep # last (split_from sep cur s) \<and> sep \<notin> set (last (split_from sep cur s))"
proof (induction s arbitrary: cur)
  case Nil
  then show ?case by simp
next
  case (Cons c cs)
  define cur' where "cur' = (if c = sep then [] else cur @ [c])"
  have l: "last (split_from sep cur (c # cs)) = last (split_from sep cur' cs)"
    by (simp add: cur'_def split_from_nonempty)
  show ?case
  proof (cases "sep \<in> set cs")
    case True
    from Cons.IH [OF True, of cur'] obtain pre where
      pre: "cs = pre @ sep # last (split_from sep cur' cs)"
      and nin: "sep \<notin> set (last (split_from sep cur' cs))"
      by blast
    from pre have "c # cs = (c # pre) @ sep # last (split_from sep cur' cs)"
      by simp
    with nin show ?thesis
      unfolding l by blast
  next
    case False
    with Cons.prems have c: "c = sep" by simp
    then have "cur' = []" by (simp add: cur'_def)
    with False have "last (split_from sep cur' cs) = cs"
      by (simp add: last_split_from_absent)
    with False c show ?thesis
      unfolding l by simp
  qed
qed

lemma index_last_py_split: "index_last (py_split s sep) = Inr (last (split_from sep [] s))"
  using split_from_nonempty [of sep "[]" s]
  by (simp add: index_last_def py_split_def split: list.splits)

subsection \<open>The citation loops\<close>

text \<open>
  When every reference has its snippet, the loops append one normalized citation for each
  reference, in order, to what was collected before.
\<close>

lemma references_loop_complete:
  "list_all (\<lambda>r. snippet_of r \<noteq> None) refs \<Longrightarrow>
   \<exists>out. references_loop refs acc = Inr (acc @ out) \<and> list_all2 normalized refs out"
proof (induction refs arbitrary: acc)
  case Nil
  then show ?case by simp
next
  case (Cons r rs)
  from Cons.prems obtain c t where c: "content r = Some c" and t: "content_text c = Some t"
    by (auto simp: snippet_of_def split: option.splits)
  define d where "d = PDict [(''source_uri'', PStr (case uri r of None \<Rightarrow> ''N/A'' | Some v \<Rightarrow> v)),
                     (''snippet'', PStr t)]"
  have n: "normalized r d"
    by (simp add: normalized_def snippet_of_def c t d_def)
  from Cons.prems have "list_all (\<lambda>r. snippet_of r \<noteq> None) rs" by simp
  from Cons.IH [OF this, of "acc @ [d]"] obtain out where
    out: "references_loop rs (acc @ [d]) = Inr ((acc @ [d]) @ out)" and all: "list_all2 normalized rs out"
    by blast
  have "references_loop (r # rs) acc = Inr (acc @ (d # out))"
    using out by (simp add: c t d_def)
  with n all show ?case by blast
qed

lemma citations_loop_complete:
  "list_all (\<lambda>r. snippet_of r \<noteq> None) (concat (map references_of cits)) \<Longrightarrow>
   \<exists>out. citations_loop cits acc = Inr (acc @ out) \<and> list_all2 normalized (concat (map references_of cits)) out"
proof (induction cits arbitrary: acc)
  case Nil
  then show ?case by simp
next
  case (Cons c cs)
  from Cons.prems have here: "list_all (\<lambda>r. snippet_of r \<noteq> None) (references_of c)"
    and rest: "list_all (\<lambda>r. snippet_of r \<noteq> None) (concat (map references_of cs))"
    by simp_all
  from references_loop_complete [OF here, of acc] obtain out1 where
    o1: "references_loop (references_of c) acc = Inr (acc @ out1)"
    and n1: "list_all2 normalized (references_of c) out1"
    by blast
  from Cons.IH [OF rest, of "acc @ out1"] obtain out2 where
    o2: "citations_loop cs (acc @ out1) = Inr ((acc @ out1) @ out2)"
    and n2: "list_all2 normalized (concat (map references_of cs)) out2"
    by blast
  have "citations_loop (c # cs) acc = Inr (acc @ (out1 @ out2))"
  proof (cases "retrievedReferences c")
    case None
    with o1 have "out1 = []" by (simp add: references_of_def)
    with None o2 show ?thesis by simp
  next
    case (Some refs)
    with o1 o2 show ?thesis by (simp add: references_of_def)
  qed
  moreover have "list_all2 normalized (concat (map references_of (c # cs))) (out1 @ out2)"
    using n1 n2 by (simp add: list_all2_appendI)
  ultimately show ?case by blast
qed

text \<open>
  When some reference lacks its snippet, the loops stop with the \<^verbatim>\<open>KeyError\<close> of the
  missing key.
\<close>

lemma references_loop_faulty:
  "\<not> list_all (\<lambda>r. snippet_of r \<noteq> None) refs \<Longrightarrow>
   references_loop refs acc = Inl (KeyError ''content'') \<or> references_loop refs acc = Inl (KeyError ''text'')"
proof (induction refs arbitrary: acc)
  case Nil
  then show ?case by simp
next
  case (Cons r rs)
  show ?case
  proof (cases "snippet_of r")
    case None
    then show ?thesis by (auto simp: snippet_of_def split: option.splits)
  next
    case (Some t)
    with Cons.prems have "\<not> list_all (\<lambda>r. snippet_of r \<noteq> None) rs" by simp
    from Cons.IH [OF this] Some show ?thesis
      by (auto simp: snippet_of_def split: option.splits)
  qed
qed

lemma citations_loop_faulty:
  "\<not> list_all (\<lambda>r. snippet_of r \<noteq> None) (concat (map references_of cits)) \<Longrightarrow>
   citations_loop cits acc = Inl (KeyError ''content'') \<or> citations_loop cits acc = Inl (KeyError ''text'')"
proof (induction cits arbitrary: acc)
  case Nil
  then show ?case by simp
next
  case (Cons c cs)
  show ?case
  proof (cases "list_all (\<lambda>r. snippet_of r \<noteq> None) (references_of c)")
    case True
    with Cons.prems have rest: "\<not> list_all (\<lambda>r. snippet_of r \<noteq> None) (concat (map references_of cs))"
      by simp
    from references_loop_complete [OF True, of acc] obtain out1 where
      o1: "references_loop (references_of c) acc = Inr (acc @ out1)" by blast
    show ?thesis
    proof (cases "retrievedReferences c")
      case None
      with Cons.IH [OF rest, of acc] show ?thesis by simp
    next
      case (Some refs)
      with o1 Cons.IH [OF rest, of "acc @ out1"] show ?thesis by (simp add: references_of_def)
    qed
  next
    case False
    then obtain refs where r: "retrievedReferences c = Some refs"
      by (cases "retrievedReferences c") (auto simp: references_of_def)
    with False references_loop_faulty [of refs acc] show ?thesis
      by (auto simp: references_of_def)
  qed
qed

text \<open>
  The outer loop does to the citations what the inner loop does to all their references
  in a row, so the loops stop at the first reference without its snippet, with the
  \<^verbatim>\<open>KeyError\<close> of the key that this reference lacks.
\<close>

lemma references_loop_append:
  "references_loop (xs @ ys) acc =
     (case references_loop xs acc of Inl e \<Rightarrow> Inl e | Inr acc' \<Rightarrow> references_loop ys acc')"
  by (induction xs arbitrary: acc) (auto split: option.splits)

lemma citations_loop_flat:
  "citations_loop cits acc = references_loop (concat (map references_of cits)) acc"
proof (induction cits arbitrary: acc)
  case Nil
  show ?case by simp
next
  case (Cons c cs)
  show ?case
    by (cases "retrievedReferences c")
       (simp_all add: references_of_def references_loop_append Cons.IH split: sum.splits)
qed

lemma references_loop_stops:
  assumes "list_all (\<lambda>r. snippet_of r \<noteq> None) pre" and "snippet_of r = None"
  shows "references_loop (pre @ r # post) acc =
           Inl (KeyError (case content r of None \<Rightarrow> ''content'' | Some c \<Rightarrow> ''text''))"
proof -
  from references_loop_complete [OF assms(1), of acc] obtain out where
    "references_loop pre acc = Inr (acc @ out)" by blast
  moreover have "references_loop (r # post) acc' =
           Inl (KeyError (case content r of None \<Rightarrow> ''content'' | Some c \<Rightarrow> ''text''))" for acc'
    using assms(2) by (auto simp: snippet_of_def split: option.splits)
  ultimately show ?thesis
    by (simp add: references_loop_append)
qed

subsection \<open>Processing a response\<close>

lemma process_response_success:
  assumes "output response = Some out" and "output_text out = Some ans"
    and "list_all (\<lambda>r. snippet_of r \<noteq> None) (response_refs response)"
  shows "\<exists>sources. process_response cfg response =
            Inr (PDict [(''answer'', PStr ans), (''sources'', PList sources),
                        (''model_used'', PStr (last (split_from (CHR ''/'') [] (MODEL_ID cfg))))])
          \<and> list_all2 normalized (response_refs response) sources"
proof (cases "citations response")
  case None
  then show ?thesis
    using assms by (simp add: process_response_def response_refs_def index_last_py_split)
next
  case (Some cits)
  with assms(3) have "list_all (\<lambda>r. snippet_of r \<noteq> None) (concat (map references_of cits))"
    by (simp add: response_refs_def)
  from citations_loop_complete [OF this, of "[]"] obtain sources where
    "citations_loop cits [] = Inr sources"
    and "list_all2 normalized (concat (map references_of cits)) sources"
    by auto
  with Some assms(1,2) show ?thesis
    by (simp add: process_response_def response_refs_def index_last_py_split)
qed

lemma process_response_fault:
  assumes "output response = None \<or> (\<exists>out. output response = Some out \<and> output_text out = None)
           \<or> \<not> list_all (\<lambda>r. snippet_of r \<noteq> None) (response_refs response)"
  shows "process_response cfg response \<in>
           {Inl (KeyError ''output''), Inl (KeyError ''text''), Inl (KeyError ''content'')}"
proof (cases "output response")
  case None
  then show ?thesis by (simp add: process_response_def)
next
  case out: (Some out)
  show ?thesis
  proof (cases "output_text out")
    case None
    with out show ?thesis by (simp add: process_response_def)
  next
    case (Some ans)
    with out assms have bad: "\<not> list_all (\<lambda>r. snippet_of r \<noteq> None) (response_refs response)"
      by auto
    then obtain cits where cits: "citations response = Some cits"
      by (cases "citations response") (auto simp: response_refs_def)
    with bad have "\<not> list_all (\<lambda>r. snippet_of r \<noteq> None) (concat (map references_of cits))"
      by (simp add: response_refs_def)
    from citations_loop_faulty [OF this, of "[]"] out Some cits show ?thesis
      by (auto simp: process_response_def)
  qed
qed

lemma process_response_stops:
  assumes "output response = Some out" and "output_text out = Some ans"
    and "response_refs response = pre @ r # post"
    and "list_all (\<lambda>r. snippet_of r \<noteq> None) pre" and "snippet_of r = None"
  shows "process_response cfg response =
           Inl (KeyError (case content r of None \<Rightarrow> ''content'' | Some c \<Rightarrow> ''text''))"
proof (cases "citations response")
  case None
  with assms(3) show ?thesis by (simp add: response_refs_def)
next
  case (Some cits)
  with assms(3) have "concat (map references_of cits) = pre @ r # post"
    by (simp add: response_refs_def)
  then have "citations_loop cits [] =
           Inl (KeyError (case content r of None \<Rightarrow> ''content'' | Some c \<Rightarrow> ''text''))"
    using references_loop_stops [OF assms(4,5), of post "[]"] by (simp add: citations_loop_flat)
  with Some assms(1,2) show ?thesis
    by (simp add: process_response_def)
qed

lemma process_response_shape:
  "process_response cfg response = Inr v \<Longrightarrow>
   \<exists>a s. v = PDict [(''answer'', PStr a), (''sources'', PList s),
                    (''model_used'', PStr (last (split_from (CHR ''/'') [] (MODEL_ID cfg))))]"
  by (auto simp: process_response_def index_last_py_split split: option.splits sum.splits)

subsection \<open>The query runner as a whole\<close>

lemma run_rag_query_try_ok:
  "client_raises p ''bedrock-agent-runtime'' (REGION_NAME cfg) = None \<Longrightarrow>
   run_rag_query_try cfg p query =
     ([CreateClient ''bedrock-agent-runtime'' (REGION_NAME cfg),
       RetrieveAndGenerate (agent_client cfg) (build_request cfg query)],
      case retrieve_and_generate p (agent_client cfg) (build_request cfg query) of
        Inl e \<Rightarrow> Inl e | Inr response \<Rightarrow> process_response cfg response)"
  by (simp add: run_rag_query_try_def agent_client_def Let_def split: sum.splits)

lemma run_rag_query_valid:
  "passes_validation cfg \<Longrightarrow>
   run_rag_query cfg p query =
     (fst (run_rag_query_try cfg p query),
      case snd (run_rag_query_try cfg p query) of
        Inl e \<Rightarrow> Inr (run_rag_query_except cfg e) | Inr v \<Rightarrow> Inr v)"
  by (simp add: run_rag_query_def passes_validation_def split: prod.splits sum.splits)

lemma except_shape: "\<exists>msg. run_rag_query_except cfg e = PDict [(''error'', PStr msg)]"
  by (simp add: run_rag_query_except_def Let_def)

lemma key_error_unclassified:
  "k \<in> {''output'', ''text'', ''content''} \<Longrightarrow>
   run_rag_query_except cfg (KeyError k) = PDict [(''error'', PStr (quoted k))]"
  by (auto simp: run_rag_query_except_def quoted_def)

lemma run_rag_query_raised:
  assumes "passes_validation cfg"
    and "client_raises p ''bedrock-agent-runtime'' (REGION_NAME cfg) = None"
    and "retrieve_and_generate p (agent_client cfg) (build_request cfg query) = Inl e"
  shows "snd (run_rag_query cfg p query) = Inr (run_rag_query_except cfg e)"
  using assms by (simp add: run_rag_query_valid run_rag_query_try_ok)

lemma run_rag_query_returned:
  assumes "passes_validation cfg"
    and "client_raises p ''bedrock-agent-runtime'' (REGION_NAME cfg) = None"
    and "retrieve_and_generate p (agent_client cfg) (build_request cfg query) = Inr response"
  shows "snd (run_rag_query cfg p query) =
           (case process_response cfg response of
              Inl e \<Rightarrow> Inr (run_rag_query_except cfg e) | Inr v \<Rightarrow> Inr v)"
  using assms by (simp add: run_rag_query_valid run_rag_query_try_ok)

lemma run_rag_query_shape:
  "(\<exists>a s. snd (run_rag_query cfg p query) =
       Inr (PDict [(''answer'', PStr a), (''sources'', PList s),
                   (''model_used'', PStr (last (split_from (CHR ''/'') [] (MODEL_ID cfg))))]))
   \<or> (\<exists>msg. snd (run_rag_query cfg p query) = Inr (PDict [(''error'', PStr msg)]))"
proof (cases "passes_validation cfg")
  case False
  then show ?thesis
    by (auto simp: run_rag_query_def passes_validation_def)
next
  case True
  show ?thesis
  proof (cases "snd (run_rag_query_try cfg p query)")
    case (Inl e)
    with True except_shape [of cfg e] show ?thesis
      by (auto simp: run_rag_query_valid)
  next
    case (Inr v)
    then have "\<exists>response. process_response cfg response = Inr v"
      by (auto simp: run_rag_query_try_def Let_def split: option.splits sum.splits)
    then obtain response where "process_response cfg response = Inr v" ..
    from process_response_shape [OF this] Inr True show ?thesis
      by (auto simp: run_rag_query_valid)
  qed
qed

lemma calls_when_valid:
  "passes_validation cfg \<Longrightarrow>
   fst (run_rag_query cfg p query) =
     (case client_raises p ''bedrock-agent-runtime'' (REGION_NAME cfg) of
        Some e \<Rightarrow> [CreateClient ''bedrock-agent-runtime'' (REGION_NAME cfg)]
      | None \<Rightarrow> [CreateClient ''bedrock-agent-runtime'' (REGION_NAME cfg),
                 RetrieveAndGenerate (agent_client cfg) (build_request cfg query)])"
  by (simp add: run_rag_query_valid run_rag_query_try_def agent_client_def Let_def
           split: option.splits sum.splits)

lemma replying_provider_ok:
  "client_raises (replying_provider response) ''bedrock-agent-runtime'' (REGION_NAME cfg) = None"
  "retrieve_and_generate (replying_provider response) (agent_client cfg) (build_request cfg query)
     = Inr response"
  by (simp_all add: replying_provider_def)

lemma sample_config_valid: "passes_validation sample_config"
  by (simp add: passes_validation_def sample_config_def)

lemma sample_response_refs:
  "response_refs sample_response =
     [\<lparr> uri = Some ''s3://docs/a.txt'', content = Some \<lparr> content_text = Some ''alpha'' \<rparr> \<rparr>,
      \<lparr> uri = None, content = Some \<lparr> content_text = Some ''beta'' \<rparr> \<rparr>,
      \<lparr> uri = Some ''s3://docs/c.txt'', content = Some \<lparr> content_text = Some ''gamma'' \<rparr> \<rparr>]"
  by (simp add: response_refs_def sample_response_def references_of_def)

subsection \<open>The access checker as a whole\<close>

lemma model_ids_Some: "map modelId summaries = map Some ids \<Longrightarrow> model_ids summaries = Inr ids"
  by (induction summaries arbitrary: ids) auto

lemma check_model_access_returns: "\<exists>b. snd (check_model_access cfg p) = Inr b"
  by (cases "check_model_access_try cfg p")
     (auto simp: check_model_access_def split: sum.splits)

lemma model_ids_Inr: "model_ids summaries = Inr ids \<Longrightarrow> map modelId summaries = map Some ids"
  by (induction summaries arbitrary: ids) (auto split: option.splits sum.splits)

lemma check_model_access_True:
  assumes "snd (check_model_access cfg p) = Inr True"
  shows "\<exists>response summaries ids.
           client_raises p ''bedrock'' (REGION_NAME cfg) = None
           \<and> list_foundation_models p (model_client cfg) = Inr response
           \<and> modelSummaries response = Some summaries
           \<and> map modelId summaries = map Some ids
           \<and> MODEL_ID cfg \<in> set ids"
  using assms
  by (auto simp: check_model_access_def check_model_access_try_def model_client_def Let_def
        split: option.splits sum.splits if_splits dest: model_ids_Inr)

section \<open>The claims\<close>

text \<open>
  The two guards at the head of \<^verbatim>\<open>run_rag_query\<close>: at the string each one tests for, the
  call returns its message and attempts nothing at the provider boundary.
\<close>

lemma knowledge_base_guard:
  "KNOWLEDGE_BASE_ID cfg = ''YOUR_KNOWLEDGE_BASE_ID_HERE'' \<Longrightarrow>
     run_rag_query cfg p query =
       ([], Inr (PDict [(''error'',
               PStr ''Configuration Missing: Please set KNOWLEDGE_BASE_ID.'')]))"
  by (simp add: run_rag_query_def)

lemma region_guard:
  "KNOWLEDGE_BASE_ID cfg \<noteq> ''YOUR_KNOWLEDGE_BASE_ID_HERE'' \<Longrightarrow>
   REGION_NAME cfg = ''YOUR_KB_REGION_HERE'' \<Longrightarrow>
     run_rag_query cfg p query =
       ([], Inr (PDict [(''error'',
               PStr (''Configuration Missing: Please set REGION_NAME to your Knowledge Base region (e.g., ''
                     @ quoted ''us-east-1'' @ '').''))]))"
  by (simp add: run_rag_query_def)

text \<open>
  C1. The property claimed: when the knowledge-base identifier or the region is left at
  its placeholder, \<^verbatim>\<open>run_rag_query\<close> returns a failure record and attempts no provider
  call. The file ships \<^verbatim>\<open>KNOWLEDGE_BASE_ID = "######"\<close> under a comment that calls it the
  placeholder to replace, and the guard tests for \<^verbatim>\<open>YOUR_KNOWLEDGE_BASE_ID_HERE\<close> instead.
  So on the configuration as shipped, with the query the script itself runs, both guards
  pass: a client is made, the request goes out with knowledge-base identifier \<^verbatim>\<open>######\<close>,
  and what the provider answers comes back as a success record.
\<close>

theorem shipped_placeholder_reaches_provider:
  "KNOWLEDGE_BASE_ID shipped_config = ''######''
   \<and> fst (run_rag_query shipped_config (replying_provider sample_response)
        ''Which things did author learnt and understood with his experience?'')
     = [CreateClient ''bedrock-agent-runtime'' ''us-west-2'',
        RetrieveAndGenerate
          \<lparr> service_name = ''bedrock-agent-runtime'', region_name = ''us-west-2'' \<rparr>
          \<lparr> input_text = ''Which things did author learnt and understood with his experience?'',
            config_type = ''KNOWLEDGE_BASE'',
            knowledgeBaseId = ''######'',
            modelArn = ''arn:aws:bedrock:us-west-2::foundation-model/anthropic.claude-3-haiku-20240307-v1:0'',
            numberOfResults = 3 \<rparr>]
   \<and> snd (run_rag_query shipped_config (replying_provider sample_response)
        ''Which things did author learnt and understood with his experience?'')
     = Inr (PDict
           [(''answer'', PStr ''An answer.''),
            (''sources'', PList
               [PDict [(''source_uri'', PStr ''s3://docs/a.txt''), (''snippet'', PStr ''alpha'')],
                PDict [(''source_uri'', PStr ''N/A''), (''snippet'', PStr ''beta'')],
                PDict [(''source_uri'', PStr ''s3://docs/c.txt''), (''snippet'', PStr ''gamma'')]]),
            (''model_used'', PStr ''anthropic.claude-3-haiku-20240307-v1:0'')])"
proof -
  have valid: "passes_validation shipped_config"
    by (simp add: passes_validation_def shipped_config_def)
  have calls: "fst (run_rag_query shipped_config (replying_provider sample_response)
        ''Which things did author learnt and understood with his experience?'')
     = [CreateClient ''bedrock-agent-runtime'' ''us-west-2'',
        RetrieveAndGenerate
          \<lparr> service_name = ''bedrock-agent-runtime'', region_name = ''us-west-2'' \<rparr>
          \<lparr> input_text = ''Which things did author learnt and understood with his experience?'',
            config_type = ''KNOWLEDGE_BASE'',
            knowledgeBaseId = ''######'',
            modelArn = ''arn:aws:bedrock:us-west-2::foundation-model/anthropic.claude-3-haiku-20240307-v1:0'',
            numberOfResults = 3 \<rparr>]"
    by (simp add: calls_when_valid [OF valid] replying_provider_def agent_client_def build_request_def)
       (simp add: shipped_config_def)
  have result: "snd (run_rag_query shipped_config (replying_provider sample_response)
        ''Which things did author learnt and understood with his experience?'')
     = Inr (PDict
           [(''answer'', PStr ''An answer.''),
            (''sources'', PList
               [PDict [(''source_uri'', PStr ''s3://docs/a.txt''), (''snippet'', PStr ''alpha'')],
                PDict [(''source_uri'', PStr ''N/A''), (''snippet'', PStr ''beta'')],
                PDict [(''source_uri'', PStr ''s3://docs/c.txt''), (''snippet'', PStr ''gamma'')]]),
            (''model_used'', PStr ''anthropic.claude-3-haiku-20240307-v1:0'')])"
    by (simp add: run_rag_query_returned [where response = sample_response] valid
        replying_provider_def process_response_def sample_response_def
        index_last_def py_split_def)
       (simp add: shipped_config_def)
  have "KNOWLEDGE_BASE_ID shipped_config = ''######''"
    by (simp add: shipped_config_def)
  with calls result show ?thesis by simp
qed

text \<open>The same for every provider and every query: something is attempted.\<close>

lemma shipped_config_is_not_caught:
  "passes_validation shipped_config
   \<and> fst (run_rag_query shipped_config p query) \<noteq> []"
  by (simp add: run_rag_query_def run_rag_query_try_def passes_validation_def shipped_config_def Let_def
           split: option.splits sum.splits prod.splits)

text \<open>
  C2. When the configuration passes validation, the client is made, and the provider
  returns a response that has its answer text and in which each of the \<open>N\<close> references
  has its snippet, \<^verbatim>\<open>run_rag_query\<close> returns a success record whose \<^verbatim>\<open>sources\<close> list
  has exactly \<open>N\<close> entries, the \<open>i\<close>-th one made from the \<open>i\<close>-th reference of the
  response: its \<^verbatim>\<open>source_uri\<close> is the reference's \<^verbatim>\<open>uri\<close> when that key is present and
  \<^verbatim>\<open>N/A\<close> when it is absent, and its \<^verbatim>\<open>snippet\<close> is the reference's \<^verbatim>\<open>content.text\<close>.
  The sample has \<open>N = 3\<close>.
\<close>

theorem citations_normalized_in_order:
  assumes "passes_validation cfg"
    and "client_raises p ''bedrock-agent-runtime'' (REGION_NAME cfg) = None"
    and "retrieve_and_generate p (agent_client cfg) (build_request cfg query) = Inr response"
    and "output response = Some out" and "output_text out = Some ans"
    and "list_all (\<lambda>r. snippet_of r \<noteq> None) (response_refs response)"
  shows "\<exists>sources model.
           snd (run_rag_query cfg p query) =
             Inr (PDict [(''answer'', PStr ans), (''sources'', PList sources),
                         (''model_used'', PStr model)])
           \<and> length sources = length (response_refs response)
           \<and> (\<forall>i < length sources.
                 \<exists>snippet. snippet_of (response_refs response ! i) = Some snippet
                   \<and> sources ! i =
                       PDict [(''source_uri'',
                               PStr (case uri (response_refs response ! i) of
                                       None \<Rightarrow> ''N/A'' | Some v \<Rightarrow> v)),
                              (''snippet'', PStr snippet)])"
proof -
  from process_response_success [OF assms(4,5,6), of cfg] obtain sources where
    pr: "process_response cfg response =
           Inr (PDict [(''answer'', PStr ans), (''sources'', PList sources),
                       (''model_used'', PStr (last (split_from (CHR ''/'') [] (MODEL_ID cfg))))])"
    and n: "list_all2 normalized (response_refs response) sources"
    by blast
  from n have len: "length sources = length (response_refs response)"
    by (simp add: list_all2_lengthD)
  have each: "\<exists>snippet. snippet_of (response_refs response ! i) = Some snippet
                   \<and> sources ! i =
                       PDict [(''source_uri'',
                               PStr (case uri (response_refs response ! i) of
                                       None \<Rightarrow> ''N/A'' | Some v \<Rightarrow> v)),
                              (''snippet'', PStr snippet)]"
    if "i < length sources" for i
  proof -
    from n that len have "normalized (response_refs response ! i) (sources ! i)"
      by (simp add: list_all2_nthD)
    then show ?thesis
      by (simp add: normalized_def split: option.splits)
  qed
  have "snd (run_rag_query cfg p query) =
          Inr (PDict [(''answer'', PStr ans), (''sources'', PList sources),
                      (''model_used'', PStr (last (split_from (CHR ''/'') [] (MODEL_ID cfg))))])"
    using run_rag_query_returned [OF assms(1,2,3)] pr by simp
  with len each show ?thesis by blast
qed

theorem citations_normalized_witness:
  "passes_validation sample_config
   \<and> client_raises (replying_provider sample_response) ''bedrock-agent-runtime''
        (REGION_NAME sample_config) = None
   \<and> retrieve_and_generate (replying_provider sample_response) (agent_client sample_config)
        (build_request sample_config ''which?'') = Inr sample_response
   \<and> output sample_response = Some \<lparr> output_text = Some ''An answer.'' \<rparr>
   \<and> output_text \<lparr> output_text = Some ''An answer.'' \<rparr> = Some ''An answer.''
   \<and> list_all (\<lambda>r. snippet_of r \<noteq> None) (response_refs sample_response)
   \<and> length (response_refs sample_response) = 3
   \<and> (\<exists>sources model.
           snd (run_rag_query sample_config (replying_provider sample_response) ''which?'') =
             Inr (PDict [(''answer'', PStr ''An answer.''), (''sources'', PList sources),
                         (''model_used'', PStr model)])
           \<and> length sources = length (response_refs sample_response)
           \<and> (\<forall>i < length sources.
                 \<exists>snippet. snippet_of (response_refs sample_response ! i) = Some snippet
                   \<and> sources ! i =
                       PDict [(''source_uri'',
                               PStr (case uri (response_refs sample_response ! i) of
                                       None \<Rightarrow> ''N/A'' | Some v \<Rightarrow> v)),
                              (''snippet'', PStr snippet)]))"
proof -
  have h1: "passes_validation sample_config"
    by (rule sample_config_valid)
  have h2: "client_raises (replying_provider sample_response) ''bedrock-agent-runtime''
        (REGION_NAME sample_config) = None"
    by (simp add: replying_provider_def)
  have h3: "retrieve_and_generate (replying_provider sample_response) (agent_client sample_config)
        (build_request sample_config ''which?'') = Inr sample_response"
    by (simp add: replying_provider_def)
  have h4: "output sample_response = Some \<lparr> output_text = Some ''An answer.'' \<rparr>"
    by (simp add: sample_response_def)
  have h5: "output_text \<lparr> output_text = Some ''An answer.'' \<rparr> = Some ''An answer.''"
    by simp
  have h6: "list_all (\<lambda>r. snippet_of r \<noteq> None) (response_refs sample_response)"
    by (simp add: sample_response_refs snippet_of_def)
  have h7: "length (response_refs sample_response) = 3"
    by (simp add: sample_response_refs)
  from citations_normalized_in_order [OF h1 h2 h3 h4 h5 h6] h1 h2 h3 h4 h5 h6 h7
  show ?thesis by blast
qed

text \<open>The record that the sample response gives, computed.\<close>

lemma sample_query_result:
  "snd (run_rag_query sample_config (replying_provider sample_response) ''which?'') =
     Inr (PDict
           [(''answer'', PStr ''An answer.''),
            (''sources'', PList
               [PDict [(''source_uri'', PStr ''s3://docs/a.txt''), (''snippet'', PStr ''alpha'')],
                PDict [(''source_uri'', PStr ''N/A''), (''snippet'', PStr ''beta'')],
                PDict [(''source_uri'', PStr ''s3://docs/c.txt''), (''snippet'', PStr ''gamma'')]]),
            (''model_used'', PStr ''anthropic.claude-3-haiku-20240307-v1:0'')])"
  by (simp add: run_rag_query_returned [where response = sample_response] sample_config_valid
        replying_provider_def process_response_def sample_response_def
        index_last_def py_split_def)
     (simp add: sample_config_def)

text \<open>A response without the key \<^verbatim>\<open>citations\<close> gives an empty list of sources.\<close>

lemma no_citations_result:
  "snd (run_rag_query sample_config (replying_provider response_without_citations) ''which?'') =
     Inr (PDict
           [(''answer'', PStr ''An answer.''),
            (''sources'', PList []),
            (''model_used'', PStr ''anthropic.claude-3-haiku-20240307-v1:0'')])"
  by (simp add: run_rag_query_returned [where response = response_without_citations]
        sample_config_valid replying_provider_def process_response_def
        response_without_citations_def index_last_def py_split_def)
     (simp add: sample_config_def)

text \<open>
  C3. When the retrieve-and-generate call raises an exception whose message \<open>M\<close> neither
  contains both \<^verbatim>\<open>ValidationException\<close> and \<^verbatim>\<open>access to the model\<close> nor contains
  \<^verbatim>\<open>AccessDeniedException\<close>, \<^verbatim>\<open>run_rag_query\<close> returns the failure record whose
  \<^verbatim>\<open>error\<close> is \<open>M\<close> itself.
\<close>

theorem unclassified_error_unchanged:
  assumes "passes_validation cfg"
    and "client_raises p ''bedrock-agent-runtime'' (REGION_NAME cfg) = None"
    and "retrieve_and_generate p (agent_client cfg) (build_request cfg query) = Inl e"
    and "\<not> (str_in ''ValidationException'' (py_str e) \<and> str_in ''access to the model'' (py_str e))"
    and "\<not> str_in ''AccessDeniedException'' (py_str e)"
  shows "snd (run_rag_query cfg p query) = Inr (PDict [(''error'', PStr (py_str e))])"
  using run_rag_query_raised [OF assms(1,2,3)] assms(4,5)
  by (simp add: run_rag_query_except_def Let_def)

theorem unclassified_error_witness:
  "passes_validation sample_config
   \<and> client_raises (raising_provider ''ThrottlingException: slow down'') ''bedrock-agent-runtime''
        (REGION_NAME sample_config) = None
   \<and> retrieve_and_generate (raising_provider ''ThrottlingException: slow down'')
        (agent_client sample_config) (build_request sample_config ''which?'')
        = Inl (ProviderError ''ThrottlingException: slow down'')
   \<and> \<not> (str_in ''ValidationException'' (py_str (ProviderError ''ThrottlingException: slow down''))
         \<and> str_in ''access to the model'' (py_str (ProviderError ''ThrottlingException: slow down'')))
   \<and> \<not> str_in ''AccessDeniedException'' (py_str (ProviderError ''ThrottlingException: slow down''))
   \<and> snd (run_rag_query sample_config (raising_provider ''ThrottlingException: slow down'') ''which?'')
       = Inr (PDict [(''error'', PStr ''ThrottlingException: slow down'')])"
proof -
  have h1: "passes_validation sample_config"
    by (rule sample_config_valid)
  have h2: "client_raises (raising_provider ''ThrottlingException: slow down'') ''bedrock-agent-runtime''
        (REGION_NAME sample_config) = None"
    by (simp add: raising_provider_def)
  have h3: "retrieve_and_generate (raising_provider ''ThrottlingException: slow down'')
        (agent_client sample_config) (build_request sample_config ''which?'')
        = Inl (ProviderError ''ThrottlingException: slow down'')"
    by (simp add: raising_provider_def)
  have h4: "\<not> (str_in ''ValidationException'' (py_str (ProviderError ''ThrottlingException: slow down''))
         \<and> str_in ''access to the model'' (py_str (ProviderError ''ThrottlingException: slow down'')))"
    by simp
  have h5: "\<not> str_in ''AccessDeniedException'' (py_str (ProviderError ''ThrottlingException: slow down''))"
    by simp
  from unclassified_error_unchanged [OF h1 h2 h3 h4 h5] h1 h2 h3 h4 h5
  show ?thesis by simp
qed

text \<open>
  C4, as the code has it. When the provider returns a response that lacks a required
  member, the \<^verbatim>\<open>KeyError\<close> is raised inside the \<^verbatim>\<open>try\<close> block and so is caught by its
  \<^verbatim>\<open>except Exception\<close> clause: \<^verbatim>\<open>run_rag_query\<close> raises nothing to its caller and
  returns a failure record whose \<^verbatim>\<open>error\<close> is, between single quotes, the first key found
  missing in the order the code reads the response. That is \<^verbatim>\<open>output\<close> when the response
  has no \<^verbatim>\<open>output\<close>; \<^verbatim>\<open>text\<close> when \<^verbatim>\<open>output\<close> has no \<^verbatim>\<open>text\<close>; and otherwise, at the
  first reference in response order that lacks its snippet, \<^verbatim>\<open>content\<close> when the
  reference has no \<^verbatim>\<open>content\<close> and \<^verbatim>\<open>text\<close> when its \<^verbatim>\<open>content\<close> has no \<^verbatim>\<open>text\<close>.
\<close>

theorem missing_field_returned_as_error:
  assumes "passes_validation cfg"
    and "client_raises p ''bedrock-agent-runtime'' (REGION_NAME cfg) = None"
    and "retrieve_and_generate p (agent_client cfg) (build_request cfg query) = Inr response"
  shows "\<not> isl (snd (run_rag_query cfg p query))
         \<and> (output response = None
              \<longrightarrow> snd (run_rag_query cfg p query)
                    = Inr (PDict [(''error'', PStr (quoted ''output''))]))
         \<and> (\<forall>out. output response = Some out \<and> output_text out = None
              \<longrightarrow> snd (run_rag_query cfg p query)
                    = Inr (PDict [(''error'', PStr (quoted ''text''))]))
         \<and> (\<forall>out ans pre r post.
               output response = Some out \<and> output_text out = Some ans
               \<and> response_refs response = pre @ r # post
               \<and> list_all (\<lambda>r. snippet_of r \<noteq> None) pre
               \<and> content r = None
              \<longrightarrow> snd (run_rag_query cfg p query)
                    = Inr (PDict [(''error'', PStr (quoted ''content''))]))
         \<and> (\<forall>out ans pre r post c.
               output response = Some out \<and> output_text out = Some ans
               \<and> response_refs response = pre @ r # post
               \<and> list_all (\<lambda>r. snippet_of r \<noteq> None) pre
               \<and> content r = Some c \<and> content_text c = None
              \<longrightarrow> snd (run_rag_query cfg p query)
                    = Inr (PDict [(''error'', PStr (quoted ''text''))]))
         \<and> (output response = None
              \<or> (\<exists>out. output response = Some out \<and> output_text out = None)
              \<or> (\<exists>ref \<in> set (response_refs response). snippet_of ref = None)
              \<longrightarrow> (\<exists>k \<in> {''output'', ''text'', ''content''}.
                     snd (run_rag_query cfg p query) = Inr (PDict [(''error'', PStr (quoted k))])))"
proof -
  note returned = run_rag_query_returned [OF assms]
  have caught: "snd (run_rag_query cfg p query) = Inr (PDict [(''error'', PStr (quoted k))])"
    if "process_response cfg response = Inl (KeyError k)"
      and "k \<in> {''output'', ''text'', ''content''}" for k
    using returned that(1) key_error_unclassified [OF that(2), of cfg] by simp
  have a: "\<not> isl (snd (run_rag_query cfg p query))"
    using run_rag_query_shape [of cfg p query] by auto
  have b: "snd (run_rag_query cfg p query) = Inr (PDict [(''error'', PStr (quoted ''output''))])"
    if "output response = None"
    using that by (intro caught) (simp_all add: process_response_def)
  have c: "snd (run_rag_query cfg p query) = Inr (PDict [(''error'', PStr (quoted ''text''))])"
    if "output response = Some out \<and> output_text out = None" for out
    using that by (intro caught) (simp_all add: process_response_def)
  have d: "snd (run_rag_query cfg p query) = Inr (PDict [(''error'', PStr (quoted ''content''))])"
    if "output response = Some out \<and> output_text out = Some ans
               \<and> response_refs response = pre @ r # post
               \<and> list_all (\<lambda>r. snippet_of r \<noteq> None) pre
               \<and> content r = None" for out ans pre r post
  proof -
    from that have "snippet_of r = None" by (simp add: snippet_of_def)
    with that process_response_stops [of response out ans pre r post cfg]
    have "process_response cfg response = Inl (KeyError ''content'')" by simp
    then show ?thesis by (intro caught) simp_all
  qed
  have e: "snd (run_rag_query cfg p query) = Inr (PDict [(''error'', PStr (quoted ''text''))])"
    if "output response = Some out \<and> output_text out = Some ans
               \<and> response_refs response = pre @ r # post
               \<and> list_all (\<lambda>r. snippet_of r \<noteq> None) pre
               \<and> content r = Some c \<and> content_text c = None" for out ans pre r post c
  proof -
    from that have "snippet_of r = None" by (simp add: snippet_of_def)
    with that process_response_stops [of response out ans pre r post cfg]
    have "process_response cfg response = Inl (KeyError ''text'')" by simp
    then show ?thesis by (intro caught) simp_all
  qed
  have f: "\<exists>k \<in> {''output'', ''text'', ''content''}.
             snd (run_rag_query cfg p query) = Inr (PDict [(''error'', PStr (quoted k))])"
    if "output response = None
              \<or> (\<exists>out. output response = Some out \<and> output_text out = None)
              \<or> (\<exists>ref \<in> set (response_refs response). snippet_of ref = None)"
  proof -
    from that have "output response = None
         \<or> (\<exists>out. output response = Some out \<and> output_text out = None)
         \<or> \<not> list_all (\<lambda>r. snippet_of r \<noteq> None) (response_refs response)"
      by (auto simp: list_all_iff)
    from process_response_fault [OF this, of cfg] obtain k where
      k: "k \<in> {''output'', ''text'', ''content''}"
      and pr: "process_response cfg response = Inl (KeyError k)"
      by auto
    from caught [OF pr k] k show ?thesis by blast
  qed
  from a b c d e f show ?thesis by blast
qed

theorem missing_field_witness:
  "passes_validation sample_config
   \<and> output response_without_output = None
   \<and> snd (run_rag_query sample_config (replying_provider response_without_output) ''which?'')
       = Inr (PDict [(''error'', PStr (quoted ''output''))])
   \<and> output response_without_text = Some \<lparr> output_text = None \<rparr>
   \<and> snd (run_rag_query sample_config (replying_provider response_without_text) ''which?'')
       = Inr (PDict [(''error'', PStr (quoted ''text''))])
   \<and> response_refs response_without_snippet
       = [] @ \<lparr> uri = Some ''s3://docs/a.txt'', content = None \<rparr> # []
   \<and> snd (run_rag_query sample_config (replying_provider response_without_snippet) ''which?'')
       = Inr (PDict [(''error'', PStr (quoted ''content''))])
   \<and> response_refs response_without_snippet_text
       = [\<lparr> uri = Some ''s3://docs/a.txt'', content = Some \<lparr> content_text = Some ''alpha'' \<rparr> \<rparr>]
         @ \<lparr> uri = None, content = Some \<lparr> content_text = None \<rparr> \<rparr>
         # [\<lparr> uri = None, content = None \<rparr>]
   \<and> list_all (\<lambda>r. snippet_of r \<noteq> None)
         [\<lparr> uri = Some ''s3://docs/a.txt'', content = Some \<lparr> content_text = Some ''alpha'' \<rparr> \<rparr>]
   \<and> snd (run_rag_query sample_config (replying_provider response_without_snippet_text) ''which?'')
       = Inr (PDict [(''error'', PStr (quoted ''text''))])
   \<and> \<not> isl (snd (run_rag_query sample_config (replying_provider response_without_snippet_text)
         ''which?''))"
proof -
  note valid = sample_config_valid
  note at = missing_field_returned_as_error [OF valid replying_provider_ok, of _ "''which?''"]
  have o1: "output response_without_output = None"
    by (simp add: response_without_output_def)
  have r1: "snd (run_rag_query sample_config (replying_provider response_without_output) ''which?'')
       = Inr (PDict [(''error'', PStr (quoted ''output''))])"
    using at [of response_without_output] o1 by blast
  have o2: "output response_without_text = Some \<lparr> output_text = None \<rparr>"
    by (simp add: response_without_text_def)
  have r2: "snd (run_rag_query sample_config (replying_provider response_without_text) ''which?'')
       = Inr (PDict [(''error'', PStr (quoted ''text''))])"
  proof -
    have "output response_without_text = Some \<lparr> output_text = None \<rparr>
          \<and> output_text \<lparr> output_text = None \<rparr> = (None :: string option)"
      using o2 by simp
    with at [of response_without_text] show ?thesis by blast
  qed
  have o3: "response_refs response_without_snippet
       = [] @ \<lparr> uri = Some ''s3://docs/a.txt'', content = None \<rparr> # []"
    by (simp add: response_refs_def response_without_snippet_def references_of_def)
  have r3: "snd (run_rag_query sample_config (replying_provider response_without_snippet) ''which?'')
       = Inr (PDict [(''error'', PStr (quoted ''content''))])"
  proof -
    have "output response_without_snippet = Some \<lparr> output_text = Some ''An answer.'' \<rparr>
          \<and> output_text \<lparr> output_text = Some ''An answer.'' \<rparr> = Some ''An answer.''
          \<and> response_refs response_without_snippet
              = [] @ \<lparr> uri = Some ''s3://docs/a.txt'', content = None \<rparr> # []
          \<and> list_all (\<lambda>r. snippet_of r \<noteq> None) []
          \<and> content \<lparr> uri = Some ''s3://docs/a.txt'', content = None \<rparr> = None"
      using o3 by (simp add: response_without_snippet_def)
    with at [of response_without_snippet] show ?thesis by blast
  qed
  let ?good = "\<lparr> uri = Some ''s3://docs/a.txt'', content = Some \<lparr> content_text = Some ''alpha'' \<rparr> \<rparr>"
  let ?bad = "\<lparr> uri = None, content = Some \<lparr> content_text = None \<rparr> \<rparr>"
  have o4: "response_refs response_without_snippet_text
       = [?good] @ ?bad # [\<lparr> uri = None, content = None \<rparr>]"
    by (simp add: response_refs_def response_without_snippet_text_def references_of_def)
  have g4: "list_all (\<lambda>r. snippet_of r \<noteq> None) [?good]"
    by (simp add: snippet_of_def)
  have r4: "snd (run_rag_query sample_config (replying_provider response_without_snippet_text) ''which?'')
       = Inr (PDict [(''error'', PStr (quoted ''text''))])"
  proof -
    have "output response_without_snippet_text = Some \<lparr> output_text = Some ''An answer.'' \<rparr>
          \<and> output_text \<lparr> output_text = Some ''An answer.'' \<rparr> = Some ''An answer.''
          \<and> response_refs response_without_snippet_text
              = [?good] @ ?bad # [\<lparr> uri = None, content = None \<rparr>]
          \<and> list_all (\<lambda>r. snippet_of r \<noteq> None) [?good]
          \<and> content ?bad = Some \<lparr> content_text = None \<rparr>
          \<and> content_text \<lparr> content_text = None \<rparr> = (None :: string option)"
      using o4 g4 by (simp add: response_without_snippet_text_def)
    with at [of response_without_snippet_text] show ?thesis by blast
  qed
  have n4: "\<not> isl (snd (run_rag_query sample_config (replying_provider response_without_snippet_text)
         ''which?''))"
    using at [of response_without_snippet_text] by blast
  from valid o1 r1 o2 r2 o3 r3 o4 g4 r4 n4 show ?thesis by blast
qed

text \<open>
  A response without the key \<^verbatim>\<open>output\<close>: the call returns the failure record and does
  not raise.
\<close>

theorem missing_output_counterexample:
  "snd (run_rag_query sample_config (replying_provider response_without_output) ''which?'')
     = Inr (PDict [(''error'', PStr (quoted ''output''))])
   \<and> \<not> isl (snd (run_rag_query sample_config (replying_provider response_without_output) ''which?''))"
proof -
  have "snd (run_rag_query sample_config (replying_provider response_without_output) ''which?'')
     = Inr (PDict [(''error'', PStr (quoted ''output''))])"
    by (simp add: run_rag_query_returned [where response = response_without_output]
          sample_config_valid replying_provider_def process_response_def
          response_without_output_def key_error_unclassified)
  then show ?thesis by simp
qed

text \<open>
  C5. \<^verbatim>\<open>check_model_access\<close> never raises. It returns \<^verbatim>\<open>False\<close> when no client can be
  made and when the listing call raises, whatever the exception. When the listing call
  returns summaries that all carry a model identifier, it returns \<^verbatim>\<open>True\<close> exactly when
  the configured model identifier is among them; and it returns \<^verbatim>\<open>True\<close> in no other
  case.
\<close>

theorem check_model_access_never_raises:
  "\<not> isl (snd (check_model_access cfg p))
   \<and> (\<forall>e. client_raises p ''bedrock'' (REGION_NAME cfg) = Some e
          \<longrightarrow> snd (check_model_access cfg p) = Inr False)
   \<and> (\<forall>e. list_foundation_models p (model_client cfg) = Inl e
          \<longrightarrow> snd (check_model_access cfg p) = Inr False)
   \<and> (\<forall>response summaries ids.
         client_raises p ''bedrock'' (REGION_NAME cfg) = None
         \<and> list_foundation_models p (model_client cfg) = Inr response
         \<and> modelSummaries response = Some summaries
         \<and> map modelId summaries = map Some ids
         \<longrightarrow> snd (check_model_access cfg p) = Inr (MODEL_ID cfg \<in> set ids))
   \<and> (snd (check_model_access cfg p) = Inr True
        \<longrightarrow> (\<exists>response summaries ids.
               client_raises p ''bedrock'' (REGION_NAME cfg) = None
               \<and> list_foundation_models p (model_client cfg) = Inr response
               \<and> modelSummaries response = Some summaries
               \<and> map modelId summaries = map Some ids
               \<and> MODEL_ID cfg \<in> set ids))"
proof -
  have a: "\<not> isl (snd (check_model_access cfg p))"
    using check_model_access_returns [of cfg p] by auto
  have b: "snd (check_model_access cfg p) = Inr False"
    if "client_raises p ''bedrock'' (REGION_NAME cfg) = Some e" for e
    using that by (simp add: check_model_access_def check_model_access_try_def)
  have c: "snd (check_model_access cfg p) = Inr False"
    if "list_foundation_models p (model_client cfg) = Inl e" for e
    using that
    by (cases "client_raises p ''bedrock'' (REGION_NAME cfg)")
       (simp_all add: check_model_access_def check_model_access_try_def model_client_def)
  have d: "snd (check_model_access cfg p) = Inr (MODEL_ID cfg \<in> set ids)"
    if "client_raises p ''bedrock'' (REGION_NAME cfg) = None"
      and "list_foundation_models p (model_client cfg) = Inr response"
      and "modelSummaries response = Some summaries"
      and "map modelId summaries = map Some ids"
    for response summaries ids
    using that(1,2,3) model_ids_Some [OF that(4)]
    by (simp add: check_model_access_def check_model_access_try_def model_client_def Let_def)
  from a b c d check_model_access_True [of cfg p] show ?thesis by blast
qed

theorem check_model_access_witness:
  "client_raises offline_provider ''bedrock'' (REGION_NAME sample_config)
     = Some (ProviderError ''Could not connect'')
   \<and> snd (check_model_access sample_config offline_provider) = Inr False
   \<and> list_foundation_models (raising_provider ''ServiceUnavailable'') (model_client sample_config)
       = Inl (ProviderError ''ServiceUnavailable'')
   \<and> snd (check_model_access sample_config (raising_provider ''ServiceUnavailable'')) = Inr False
   \<and> client_raises (listing_provider [''amazon.titan-text-express-v1'', ''anthropic.claude-3-haiku-20240307-v1:0''])
        ''bedrock'' (REGION_NAME sample_config) = None
   \<and> list_foundation_models
        (listing_provider [''amazon.titan-text-express-v1'', ''anthropic.claude-3-haiku-20240307-v1:0''])
        (model_client sample_config)
       = Inr \<lparr> modelSummaries = Some [\<lparr> modelId = Some ''amazon.titan-text-express-v1'' \<rparr>,
                                      \<lparr> modelId = Some ''anthropic.claude-3-haiku-20240307-v1:0'' \<rparr>] \<rparr>
   \<and> snd (check_model_access sample_config
        (listing_provider [''amazon.titan-text-express-v1'', ''anthropic.claude-3-haiku-20240307-v1:0'']))
       = Inr True
   \<and> snd (check_model_access sample_config (listing_provider [''amazon.titan-text-express-v1'']))
       = Inr False"
proof -
  have a1: "client_raises offline_provider ''bedrock'' (REGION_NAME sample_config)
     = Some (ProviderError ''Could not connect'')"
    by (simp add: offline_provider_def)
  have b1: "list_foundation_models (raising_provider ''ServiceUnavailable'') (model_client sample_config)
       = Inl (ProviderError ''ServiceUnavailable'')"
    by (simp add: raising_provider_def)
  have c1: "client_raises (listing_provider ids) ''bedrock'' (REGION_NAME sample_config) = None" for ids
    by (simp add: listing_provider_def)
  have c2: "list_foundation_models (listing_provider ids) (model_client sample_config)
       = Inr \<lparr> modelSummaries = Some (map (\<lambda>i. \<lparr> modelId = Some i \<rparr>) ids) \<rparr>" for ids
    by (simp add: listing_provider_def)
  have c3: "modelSummaries \<lparr> modelSummaries = Some (map (\<lambda>i. \<lparr> modelId = Some i \<rparr>) ids) \<rparr>
              = Some (map (\<lambda>i. \<lparr> modelId = Some i \<rparr>) ids)" for ids :: "string list"
    by simp
  have c4: "map modelId (map (\<lambda>i. \<lparr> modelId = Some i \<rparr>) ids) = map Some ids" for ids :: "string list"
    by simp
  have a: "snd (check_model_access sample_config offline_provider) = Inr False"
    using check_model_access_never_raises [of sample_config offline_provider] a1 by blast
  have b: "snd (check_model_access sample_config (raising_provider ''ServiceUnavailable'')) = Inr False"
    using check_model_access_never_raises [of sample_config "raising_provider ''ServiceUnavailable''"] b1
    by blast
  have c: "snd (check_model_access sample_config (listing_provider ids))
             = Inr (MODEL_ID sample_config \<in> set ids)" for ids
    using check_model_access_never_raises [of sample_config "listing_provider ids"]
      c1 [of ids] c2 [of ids] c3 [of ids] c4 [of ids]
    by blast
  have m: "MODEL_ID sample_config = ''anthropic.claude-3-haiku-20240307-v1:0''"
    by (simp add: sample_config_def)
  show ?thesis
    using a1 a b1 b
      c1 [of "[''amazon.titan-text-express-v1'', ''anthropic.claude-3-haiku-20240307-v1:0'']"]
      c2 [of "[''amazon.titan-text-express-v1'', ''anthropic.claude-3-haiku-20240307-v1:0'']"]
      c [of "[''amazon.titan-text-express-v1'', ''anthropic.claude-3-haiku-20240307-v1:0'']"]
      c [of "[''amazon.titan-text-express-v1'']"]
    by (simp add: m)
qed

text \<open>
  C6. When the retrieve-and-generate call raises an exception whose message contains both
  \<^verbatim>\<open>ValidationException\<close> and \<^verbatim>\<open>access to the model\<close>, \<^verbatim>\<open>run_rag_query\<close> returns a
  failure record whose \<^verbatim>\<open>error\<close> contains the configured model identifier and the
  sentence \<^verbatim>\<open>Try using a different model like\<close> followed by two model identifiers, at
  least one of which is not the configured one.
\<close>

theorem model_access_error_names_model:
  assumes "passes_validation cfg"
    and "client_raises p ''bedrock-agent-runtime'' (REGION_NAME cfg) = None"
    and "retrieve_and_generate p (agent_client cfg) (build_request cfg query) = Inl e"
    and "str_in ''ValidationException'' (py_str e)"
    and "str_in ''access to the model'' (py_str e)"
  shows "\<exists>msg. snd (run_rag_query cfg p query) = Inr (PDict [(''error'', PStr msg)])
           \<and> str_in (MODEL_ID cfg) msg
           \<and> str_in ''Try using a different model like'' msg
           \<and> (\<exists>alt \<in> {''anthropic.claude-3-haiku-20240307-v1:0'',
                        ''anthropic.claude-3-sonnet-20240229-v1:0''}.
                 alt \<noteq> MODEL_ID cfg \<and> str_in alt msg)"
proof -
  define head where "head = ''Model Access Error: '' @ py_str e
             @ ''\<newline>\<newline>Troubleshooting:\<newline>1. Check if the model '' @ [CHR 0x27]"
  define mid where "mid = [CHR 0x27] @ '' is available in region '' @ quoted (REGION_NAME cfg)
             @ ''\<newline>2. Verify you have access to this model in your AWS account''"
  define tail where "tail = ''\<newline>3. Try using a different model like ''
             @ quoted ''anthropic.claude-3-haiku-20240307-v1:0''
             @ '' or '' @ quoted ''anthropic.claude-3-sonnet-20240229-v1:0''"
  define msg where "msg = head @ MODEL_ID cfg @ mid @ tail"
  have r: "snd (run_rag_query cfg p query) = Inr (PDict [(''error'', PStr msg)])"
    using run_rag_query_raised [OF assms(1,2,3)] assms(4,5)
    by (simp add: run_rag_query_except_def Let_def msg_def head_def mid_def tail_def quoted_def)
  have m: "str_in (MODEL_ID cfg) msg"
    unfolding msg_def by (rule str_in_middle)
  have t: "str_in ''Try using a different model like'' tail"
    and h: "str_in ''anthropic.claude-3-haiku-20240307-v1:0'' tail"
    and s: "str_in ''anthropic.claude-3-sonnet-20240229-v1:0'' tail"
    by (simp_all add: tail_def quoted_def)
  have tail: "str_in n tail \<Longrightarrow> str_in n msg" for n
    unfolding msg_def by (intro str_in_append_left)
  have "''anthropic.claude-3-haiku-20240307-v1:0'' \<noteq> ''anthropic.claude-3-sonnet-20240229-v1:0''"
    by simp
  then have "''anthropic.claude-3-haiku-20240307-v1:0'' \<noteq> MODEL_ID cfg
        \<or> ''anthropic.claude-3-sonnet-20240229-v1:0'' \<noteq> MODEL_ID cfg"
    by metis
  with tail [OF h] tail [OF s]
  have "\<exists>alt \<in> {''anthropic.claude-3-haiku-20240307-v1:0'',
                        ''anthropic.claude-3-sonnet-20240229-v1:0''}.
                 alt \<noteq> MODEL_ID cfg \<and> str_in alt msg"
    by blast
  with r m tail [OF t] show ?thesis by blast
qed

theorem model_access_error_witness:
  "passes_validation sample_config
   \<and> client_raises (raising_provider ''ValidationException: You don't have access to the model.'')
        ''bedrock-agent-runtime'' (REGION_NAME sample_config) = None
   \<and> retrieve_and_generate (raising_provider ''ValidationException: You don't have access to the model.'')
        (agent_client sample_config) (build_request sample_config ''which?'')
       = Inl (ProviderError ''ValidationException: You don't have access to the model.'')
   \<and> str_in ''ValidationException''
        (py_str (ProviderError ''ValidationException: You don't have access to the model.''))
   \<and> str_in ''access to the model''
        (py_str (ProviderError ''ValidationException: You don't have access to the model.''))
   \<and> (\<exists>msg. snd (run_rag_query sample_config
                   (raising_provider ''ValidationException: You don't have access to the model.'')
                   ''which?'') = Inr (PDict [(''error'', PStr msg)])
           \<and> str_in (MODEL_ID sample_config) msg
           \<and> str_in ''Try using a different model like'' msg
           \<and> (\<exists>alt \<in> {''anthropic.claude-3-haiku-20240307-v1:0'',
                        ''anthropic.claude-3-sonnet-20240229-v1:0''}.
                 alt \<noteq> MODEL_ID sample_config \<and> str_in alt msg))"
proof -
  let ?m = "''ValidationException: You don't have access to the model.''"
  have h1: "passes_validation sample_config"
    by (rule sample_config_valid)
  have h2: "client_raises (raising_provider ?m) ''bedrock-agent-runtime'' (REGION_NAME sample_config) = None"
    by (simp add: raising_provider_def)
  have h3: "retrieve_and_generate (raising_provider ?m)
        (agent_client sample_config) (build_request sample_config ''which?'') = Inl (ProviderError ?m)"
    by (simp add: raising_provider_def)
  have h4: "str_in ''ValidationException'' (py_str (ProviderError ?m))"
    by simp
  have h5: "str_in ''access to the model'' (py_str (ProviderError ?m))"
    by simp
  from model_access_error_names_model [OF h1 h2 h3 h4 h5] h1 h2 h3 h4 h5
  show ?thesis by blast
qed

text \<open>
  C7. When the retrieve-and-generate call raises an exception whose message contains
  \<^verbatim>\<open>AccessDeniedException\<close> and does not match the model-access signature of C6,
  \<^verbatim>\<open>run_rag_query\<close> returns a failure record whose \<^verbatim>\<open>error\<close> contains the message and
  mentions \<^verbatim>\<open>credentials\<close> and \<^verbatim>\<open>IAM permissions\<close>.
\<close>

theorem access_denied_error_mentions_credentials:
  assumes "passes_validation cfg"
    and "client_raises p ''bedrock-agent-runtime'' (REGION_NAME cfg) = None"
    and "retrieve_and_generate p (agent_client cfg) (build_request cfg query) = Inl e"
    and "str_in ''AccessDeniedException'' (py_str e)"
    and "\<not> (str_in ''ValidationException'' (py_str e) \<and> str_in ''access to the model'' (py_str e))"
  shows "\<exists>msg. snd (run_rag_query cfg p query) = Inr (PDict [(''error'', PStr msg)])
           \<and> str_in (py_str e) msg
           \<and> str_in ''credentials'' msg
           \<and> str_in ''IAM permissions'' msg"
proof -
  define tail where "tail = ''\<newline>\<newline>Troubleshooting:\<newline>1. Check your AWS credentials''
             @ ''\<newline>2. Verify you have the necessary IAM permissions for Bedrock''
             @ ''\<newline>3. Ensure your Knowledge Base ID is correct''"
  define msg where "msg = ''Access Denied: '' @ py_str e @ tail"
  have r: "snd (run_rag_query cfg p query) = Inr (PDict [(''error'', PStr msg)])"
    using run_rag_query_raised [OF assms(1,2,3)] assms(4,5)
    by (auto simp: run_rag_query_except_def Let_def msg_def tail_def)
  have e: "str_in (py_str e) msg"
    unfolding msg_def by (rule str_in_middle)
  have c: "str_in ''credentials'' tail" and i: "str_in ''IAM permissions'' tail"
    by (simp_all add: tail_def)
  have tail: "str_in n tail \<Longrightarrow> str_in n msg" for n
    unfolding msg_def by (intro str_in_append_left)
  from r e tail [OF c] tail [OF i] show ?thesis by blast
qed

theorem access_denied_error_witness:
  "passes_validation sample_config
   \<and> client_raises (raising_provider ''AccessDeniedException: User is not authorized'')
        ''bedrock-agent-runtime'' (REGION_NAME sample_config) = None
   \<and> retrieve_and_generate (raising_provider ''AccessDeniedException: User is not authorized'')
        (agent_client sample_config) (build_request sample_config ''which?'')
       = Inl (ProviderError ''AccessDeniedException: User is not authorized'')
   \<and> str_in ''AccessDeniedException''
        (py_str (ProviderError ''AccessDeniedException: User is not authorized''))
   \<and> \<not> (str_in ''ValidationException''
            (py_str (ProviderError ''AccessDeniedException: User is not authorized''))
         \<and> str_in ''access to the model''
            (py_str (ProviderError ''AccessDeniedException: User is not authorized'')))
   \<and> (\<exists>msg. snd (run_rag_query sample_config
                   (raising_provider ''AccessDeniedException: User is not authorized'')
                   ''which?'') = Inr (PDict [(''error'', PStr msg)])
           \<and> str_in (py_str (ProviderError ''AccessDeniedException: User is not authorized'')) msg
           \<and> str_in ''credentials'' msg
           \<and> str_in ''IAM permissions'' msg)"
proof -
  let ?m = "''AccessDeniedException: User is not authorized''"
  have h1: "passes_validation sample_config"
    by (rule sample_config_valid)
  have h2: "client_raises (raising_provider ?m) ''bedrock-agent-runtime'' (REGION_NAME sample_config) = None"
    by (simp add: raising_provider_def)
  have h3: "retrieve_and_generate (raising_provider ?m)
        (agent_client sample_config) (build_request sample_config ''which?'') = Inl (ProviderError ?m)"
    by (simp add: raising_provider_def)
  have h4: "str_in ''AccessDeniedException'' (py_str (ProviderError ?m))"
    by simp
  have h5: "\<not> (str_in ''ValidationException'' (py_str (ProviderError ?m))
              \<and> str_in ''access to the model'' (py_str (ProviderError ?m)))"
    by simp
  from access_denied_error_mentions_credentials [OF h1 h2 h3 h4 h5] h1 h2 h3 h4 h5
  show ?thesis by blast
qed

text \<open>
  C8. Whatever the configuration, the provider and the query, \<^verbatim>\<open>run_rag_query\<close> returns
  a dictionary that is either a success record with exactly the keys \<^verbatim>\<open>answer\<close>,
  \<^verbatim>\<open>sources\<close> and \<^verbatim>\<open>model_used\<close> (a string, a list and a string), or a failure record
  with exactly the key \<^verbatim>\<open>error\<close> (a string).
\<close>

theorem result_is_exactly_one_variant:
  "(\<exists>answer sources model.
      snd (run_rag_query cfg p query) =
        Inr (PDict [(''answer'', PStr answer), (''sources'', PList sources),
                    (''model_used'', PStr model)]))
   \<or> (\<exists>msg. snd (run_rag_query cfg p query) = Inr (PDict [(''error'', PStr msg)]))"
  using run_rag_query_shape [of cfg p query] by blast

theorem result_variant_witness:
  "(\<exists>answer sources model.
      snd (run_rag_query sample_config (replying_provider sample_response) ''which?'') =
        Inr (PDict [(''answer'', PStr answer), (''sources'', PList sources),
                    (''model_used'', PStr model)]))
   \<or> (\<exists>msg. snd (run_rag_query sample_config (replying_provider sample_response) ''which?'')
              = Inr (PDict [(''error'', PStr msg)]))"
  using result_is_exactly_one_variant
    [of sample_config "replying_provider sample_response" "''which?''"]
  by blast

text \<open>
  C9. When the configuration passes validation, \<^verbatim>\<open>run_rag_query\<close> sends at most one
  retrieve-and-generate request, exactly one when the client can be made, and every
  request it sends asks for 3 results, whatever the configuration and the query.
\<close>

theorem request_asks_for_three_results:
  assumes "passes_validation cfg"
  shows "length (requests_of (fst (run_rag_query cfg p query))) \<le> 1
         \<and> (\<forall>request \<in> set (requests_of (fst (run_rag_query cfg p query))).
               numberOfResults request = 3)
         \<and> (client_raises p ''bedrock-agent-runtime'' (REGION_NAME cfg) = None
              \<longrightarrow> length (requests_of (fst (run_rag_query cfg p query))) = 1)"
  using calls_when_valid [OF assms, of p query]
  by (cases "client_raises p ''bedrock-agent-runtime'' (REGION_NAME cfg)")
     (simp_all add: build_request_def)

theorem request_asks_for_three_results_witness:
  "passes_validation sample_config
   \<and> client_raises (replying_provider sample_response) ''bedrock-agent-runtime''
        (REGION_NAME sample_config) = None
   \<and> length (requests_of (fst (run_rag_query sample_config (replying_provider sample_response)
        ''which?''))) = 1
   \<and> numberOfResults (hd (requests_of (fst (run_rag_query sample_config
        (replying_provider sample_response) ''which?'')))) = 3"
proof -
  let ?sent = "requests_of (fst (run_rag_query sample_config (replying_provider sample_response)
        ''which?''))"
  have h1: "passes_validation sample_config"
    by (rule sample_config_valid)
  have h2: "client_raises (replying_provider sample_response) ''bedrock-agent-runtime''
        (REGION_NAME sample_config) = None"
    by (simp add: replying_provider_def)
  from request_asks_for_three_results [OF h1, of "replying_provider sample_response" "''which?''"] h2
  have one: "length ?sent = 1" and all: "\<forall>request \<in> set ?sent. numberOfResults request = 3"
    by blast+
  from one have "hd ?sent \<in> set ?sent"
    by (cases ?sent) simp_all
  with all have "numberOfResults (hd ?sent) = 3"
    by blast
  with h1 h2 one show ?thesis by blast
qed

text \<open>
  C10. In a success record returned by \<^verbatim>\<open>run_rag_query\<close>, \<^verbatim>\<open>model_used\<close> is a string
  without a slash: what follows the last slash of the configured model identifier when
  that has one, and the model identifier itself when it has none. It is never the model
  resource name of the request.
\<close>

theorem model_used_is_last_segment:
  assumes "snd (run_rag_query cfg p query) = Inr (PDict d)"
    and "map_of d ''model_used'' = Some v"
  shows "\<exists>m. v = PStr m
           \<and> CHR ''/'' \<notin> set m
           \<and> (CHR ''/'' \<in> set (MODEL_ID cfg) \<longrightarrow> (\<exists>pre. MODEL_ID cfg = pre @ CHR ''/'' # m))
           \<and> (CHR ''/'' \<notin> set (MODEL_ID cfg) \<longrightarrow> m = MODEL_ID cfg)
           \<and> m \<noteq> modelArn (build_request cfg query)"
proof -
  define m where "m = last (split_from (CHR ''/'') [] (MODEL_ID cfg))"
  from run_rag_query_shape [of cfg p query] assms have v: "v = PStr m"
    by (auto simp: m_def)
  have present: "\<exists>pre. MODEL_ID cfg = pre @ CHR ''/'' # m" and "CHR ''/'' \<notin> set m"
    if "CHR ''/'' \<in> set (MODEL_ID cfg)"
    using last_split_from_present [OF that, of "[]"] by (auto simp: m_def)
  moreover have absent: "m = MODEL_ID cfg" if "CHR ''/'' \<notin> set (MODEL_ID cfg)"
    using last_split_from_absent [OF that, of "[]"] by (simp add: m_def)
  ultimately have no_slash: "CHR ''/'' \<notin> set m"
    by (cases "CHR ''/'' \<in> set (MODEL_ID cfg)") auto
  have "CHR ''/'' \<in> set (modelArn (build_request cfg query))"
    by (simp add: build_request_def)
  with no_slash have "m \<noteq> modelArn (build_request cfg query)" by metis
  with v no_slash present absent show ?thesis by blast
qed

theorem model_used_witness:
  "snd (run_rag_query path_config (replying_provider sample_response) ''which?'') =
     Inr (PDict
           [(''answer'', PStr ''An answer.''),
            (''sources'', PList
               [PDict [(''source_uri'', PStr ''s3://docs/a.txt''), (''snippet'', PStr ''alpha'')],
                PDict [(''source_uri'', PStr ''N/A''), (''snippet'', PStr ''beta'')],
                PDict [(''source_uri'', PStr ''s3://docs/c.txt''), (''snippet'', PStr ''gamma'')]]),
            (''model_used'', PStr ''model-1'')])
   \<and> map_of [(''answer'', PStr ''An answer.''),
            (''sources'', PList
               [PDict [(''source_uri'', PStr ''s3://docs/a.txt''), (''snippet'', PStr ''alpha'')],
                PDict [(''source_uri'', PStr ''N/A''), (''snippet'', PStr ''beta'')],
                PDict [(''source_uri'', PStr ''s3://docs/c.txt''), (''snippet'', PStr ''gamma'')]]),
            (''model_used'', PStr ''model-1'')] ''model_used'' = Some (PStr ''model-1'')
   \<and> CHR ''/'' \<in> set (MODEL_ID path_config)
   \<and> (\<exists>pre. MODEL_ID path_config = pre @ CHR ''/'' # ''model-1'')
   \<and> ''model-1'' \<noteq> modelArn (build_request path_config ''which?'')"
proof -
  have valid: "passes_validation path_config"
    by (simp add: passes_validation_def path_config_def sample_config_def)
  have h1: "snd (run_rag_query path_config (replying_provider sample_response) ''which?'') =
     Inr (PDict
           [(''answer'', PStr ''An answer.''),
            (''sources'', PList
               [PDict [(''source_uri'', PStr ''s3://docs/a.txt''), (''snippet'', PStr ''alpha'')],
                PDict [(''source_uri'', PStr ''N/A''), (''snippet'', PStr ''beta'')],
                PDict [(''source_uri'', PStr ''s3://docs/c.txt''), (''snippet'', PStr ''gamma'')]]),
            (''model_used'', PStr ''model-1'')])"
    by (simp add: run_rag_query_returned [where response = sample_response] valid
        replying_provider_def process_response_def sample_response_def
        index_last_def py_split_def)
       (simp add: path_config_def sample_config_def)
  have h2: "map_of [(''answer'', PStr ''An answer.''),
            (''sources'', PList
               [PDict [(''source_uri'', PStr ''s3://docs/a.txt''), (''snippet'', PStr ''alpha'')],
                PDict [(''source_uri'', PStr ''N/A''), (''snippet'', PStr ''beta'')],
                PDict [(''source_uri'', PStr ''s3://docs/c.txt''), (''snippet'', PStr ''gamma'')]]),
            (''model_used'', PStr ''model-1'')] ''model_used'' = Some (PStr ''model-1'')"
    by simp
  have h3: "CHR ''/'' \<in> set (MODEL_ID path_config)"
    by (simp add: path_config_def sample_config_def)
  from model_used_is_last_segment [OF h1 h2] h1 h2 h3
  show ?thesis by auto
qed

end
